theory Spec2Isabelle
  imports Main "HOL-Library.Sublist" "HOL-Library.FSet"
begin

section \<open>Notifications (glance/notifier.py)\<close>

subsection \<open>Payload values\<close>

text \<open>
  A notification payload is either a Python dict with string keys (kept as an association
  list in the order the source writes the keys) or, on the error path of
  \<open>ImageProxy.set_data\<close>, a plain message string.
\<close>

datatype pval =
    PNone
  | PBool bool
  | PInt int
  | PStr string
  | PDict "(string \<times> string) list"
  | PList "string list"

type_synonym pdict = "(string \<times> pval) list"

datatype payload = PayloadDict pdict | PayloadText string

datatype priority = INFO | WARN | ERROR

text \<open>\<open>payload[key] = value\<close> on a dict: replace the value of an existing key in place,
  append a new key otherwise.\<close>

fun setitem :: "string \<Rightarrow> pval \<Rightarrow> pdict \<Rightarrow> pdict" where
  "setitem k v [] = [(k, v)]"
| "setitem k v ((k', v') # kvs) =
     (if k = k' then (k, v) # kvs else (k', v') # setitem k v kvs)"

definition getitem :: "pdict \<Rightarrow> string \<Rightarrow> pval option" where
  "getitem d k = map_of d k"

definition keys :: "pdict \<Rightarrow> string list" where
  "keys d = map fst d"

subsection \<open>Domain entities\<close>

record location =
  url :: string
  metadata :: "(string \<times> string) list"

text \<open>The attributes of \<open>glance.domain.Image\<close> that the notifier reads, and its
  locations. Attributes that may be \<open>None\<close> are options; timestamps are seconds.\<close>

record image =
  image_id :: string
  name :: "string option"
  status :: string
  created_at :: "nat option"
  updated_at :: "nat option"
  min_disk :: int
  min_ram :: int
  protected :: bool
  checksum :: "string option"
  owner :: "string option"
  disk_format :: "string option"
  container_format :: "string option"
  image_size :: "int option"
  visibility :: string
  extra_properties :: "(string \<times> string) list"
  tags :: "string list"
  locations :: "location list"

record task =
  task_id :: string
  task_type :: string
  task_status :: string
  task_owner :: "string option"
  task_expires_at :: "nat option"
  task_created_at :: "nat option"
  task_updated_at :: "nat option"
  task_input :: "(string \<times> string) list"
  task_result :: "string option"
  task_message :: "string option"

subsection \<open>Time\<close>

text \<open>\<open>timeutils.isotime(at=None)\<close> formats \<open>at\<close>, or the current time when \<open>at\<close>
  is missing, and always returns a string. The current time and the formatting are
  parameters.\<close>

record clock =
  utcnow :: nat
  strftime :: "nat \<Rightarrow> string"

definition isotime :: "clock \<Rightarrow> nat option \<Rightarrow> string" where
  "isotime clk at = strftime clk (case at of None \<Rightarrow> utcnow clk | Some t \<Rightarrow> t)"

subsection \<open>Payload formatting\<close>

definition opt_str :: "string option \<Rightarrow> pval" where
  "opt_str s = (case s of None \<Rightarrow> PNone | Some v \<Rightarrow> PStr v)"

definition opt_int :: "int option \<Rightarrow> pval" where
  "opt_int s = (case s of None \<Rightarrow> PNone | Some v \<Rightarrow> PInt v)"

definition format_image_notification :: "clock \<Rightarrow> image \<Rightarrow> pdict" where
  "format_image_notification clk img =
     [(''id'', PStr (image_id img)),
      (''name'', opt_str (name img)),
      (''status'', PStr (status img)),
      (''created_at'', PStr (isotime clk (created_at img))),
      (''updated_at'', PStr (isotime clk (updated_at img))),
      (''min_disk'', PInt (min_disk img)),
      (''min_ram'', PInt (min_ram img)),
      (''protected'', PBool (protected img)),
      (''checksum'', opt_str (checksum img)),
      (''owner'', opt_str (owner img)),
      (''disk_format'', opt_str (disk_format img)),
      (''container_format'', opt_str (container_format img)),
      (''size'', opt_int (image_size img)),
      (''is_public'', PBool (visibility img = ''public'')),
      (''properties'', PDict (extra_properties img)),
      (''tags'', PList (tags img)),
      (''deleted'', PBool False),
      (''deleted_at'', PNone)]"

definition format_task_notification :: "clock \<Rightarrow> task \<Rightarrow> pdict" where
  "format_task_notification clk task =
     [(''id'', PStr (task_id task)),
      (''type'', PStr (task_type task)),
      (''status'', PStr (task_status task)),
      (''result'', PNone),
      (''owner'', opt_str (task_owner task)),
      (''message'', PNone),
      (''expires_at'', PStr (isotime clk (task_expires_at task))),
      (''created_at'', PStr (isotime clk (task_created_at task))),
      (''updated_at'', PStr (isotime clk (task_updated_at task))),
      (''deleted'', PBool False),
      (''deleted_at'', PNone)]"

subsection \<open>Exceptions\<close>

text \<open>
  One constructor for each \<open>except\<close> clause of \<open>ImageProxy.set_data\<close>: it stands for
  the exceptions that clause catches and carries \<open>str(e)\<close>. The \<open>webob.exc\<close> errors
  the proxy raises are \<open>HTTPError\<close> values carrying their explanation. The last clause
  is \<open>except Exception\<close>, so one more constructor, \<open>BaseException\<close>, stands for what
  no clause catches: an exception that is not an \<open>Exception\<close> (\<open>KeyboardInterrupt\<close>,
  \<open>SystemExit\<close>, \<open>GeneratorExit\<close>).
\<close>

datatype http_class =
    HTTPRequestEntityTooLarge
  | HTTPServiceUnavailable
  | HTTPBadRequest
  | HTTPConflict
  | HTTPForbidden
  | HTTPNotFound
  | HTTPOther nat

datatype exc =
    StorageFull string
  | StorageWriteDenied string
  | ValueError string
  | Duplicate string
  | Forbidden string
  | NotFound string
  | HTTPError http_class string
  | Exception string
  | BaseException string

fun str :: "exc \<Rightarrow> string" where
  "str (StorageFull m) = m"
| "str (StorageWriteDenied m) = m"
| "str (ValueError m) = m"
| "str (Duplicate m) = m"
| "str (Forbidden m) = m"
| "str (NotFound m) = m"
| "str (HTTPError c m) = m"
| "str (Exception m) = m"
| "str (BaseException m) = m"

datatype exc_kind =
    KStorageFull
  | KStorageWriteDenied
  | KValueError
  | KDuplicate
  | KForbidden
  | KNotFound
  | KHTTPError
  | KException
  | KBaseException

fun kind_of :: "exc \<Rightarrow> exc_kind" where
  "kind_of (StorageFull m) = KStorageFull"
| "kind_of (StorageWriteDenied m) = KStorageWriteDenied"
| "kind_of (ValueError m) = KValueError"
| "kind_of (Duplicate m) = KDuplicate"
| "kind_of (Forbidden m) = KForbidden"
| "kind_of (NotFound m) = KNotFound"
| "kind_of (HTTPError c m) = KHTTPError"
| "kind_of (Exception m) = KException"
| "kind_of (BaseException m) = KBaseException"

text \<open>The error kinds that \<open>ImageProxy.set_data\<close> handles: those some \<open>except\<close> clause
  catches.\<close>

fun caught :: "exc \<Rightarrow> bool" where
  "caught (BaseException m) = False"
| "caught e = True"

subsection \<open>The trace of a proxied operation\<close>

text \<open>
  What a proxy does to the outside is the sequence of notifications it hands to the
  notifier and of calls it delegates to the object it wraps. Both are recorded, in
  order, in one trace. The wrapped object is a parameter: for every call it either
  raises or returns the entity as the call left it.
\<close>

datatype 'e call =
    RepoAdd 'e
  | RepoSave 'e
  | RepoRemove 'e
  | TaskRun 'e string
  | TaskBeginProcessing 'e
  | TaskSucceed 'e string
  | TaskFail 'e string
  | ImageSetData 'e "string list" "nat option"

datatype 'e event =
    Notify priority string payload
  | Called "'e call"

type_synonym 'e wrapped = "'e call \<Rightarrow> exc + 'e"

type_synonym 'e outcome = "(exc + 'e) \<times> 'e event list"

text \<open>\<open>Notifier.info\<close>, \<open>Notifier.warn\<close> and \<open>Notifier.error\<close> hand the event to the
  messaging driver.\<close>

definition Notifier_info :: "string \<Rightarrow> payload \<Rightarrow> 'e event list \<Rightarrow> 'e event list" where
  "Notifier_info event_type p tr = tr @ [Notify INFO event_type p]"

definition Notifier_warn :: "string \<Rightarrow> payload \<Rightarrow> 'e event list \<Rightarrow> 'e event list" where
  "Notifier_warn event_type p tr = tr @ [Notify WARN event_type p]"

definition Notifier_error :: "string \<Rightarrow> payload \<Rightarrow> 'e event list \<Rightarrow> 'e event list" where
  "Notifier_error event_type p tr = tr @ [Notify ERROR event_type p]"

text \<open>The methods of \<open>glance.domain.proxy.Repo\<close>, \<open>.Task\<close> and \<open>.Image\<close> that the
  notifier's classes reach through \<open>super\<close> or through \<open>self.image\<close>: each passes the
  call on to the wrapped object.\<close>

definition delegate :: "'e wrapped \<Rightarrow> 'e call \<Rightarrow> 'e event list \<Rightarrow> 'e outcome" where
  "delegate base c tr = (base c, tr @ [Called c])"

subsection \<open>ImageRepoProxy\<close>

definition ImageRepoProxy_save :: "clock \<Rightarrow> image wrapped \<Rightarrow> image \<Rightarrow> image event list \<Rightarrow> image outcome" where
  "ImageRepoProxy_save clk base img tr =
     (case delegate base (RepoSave img) tr of
        (Inl e, tr1) \<Rightarrow> (Inl e, tr1)
      | (Inr img1, tr1) \<Rightarrow>
          (Inr img1,
           Notifier_info ''image.update''
             (PayloadDict (format_image_notification clk img1)) tr1))"

definition ImageRepoProxy_add :: "clock \<Rightarrow> image wrapped \<Rightarrow> image \<Rightarrow> image event list \<Rightarrow> image outcome" where
  "ImageRepoProxy_add clk base img tr =
     (case delegate base (RepoAdd img) tr of
        (Inl e, tr1) \<Rightarrow> (Inl e, tr1)
      | (Inr img1, tr1) \<Rightarrow>
          (Inr img1,
           Notifier_info ''image.create''
             (PayloadDict (format_image_notification clk img1)) tr1))"

definition ImageRepoProxy_remove :: "clock \<Rightarrow> image wrapped \<Rightarrow> image \<Rightarrow> image event list \<Rightarrow> image outcome" where
  "ImageRepoProxy_remove clk base img tr =
     (case delegate base (RepoRemove img) tr of
        (Inl e, tr1) \<Rightarrow> (Inl e, tr1)
      | (Inr img1, tr1) \<Rightarrow>
          (let payload = format_image_notification clk img1;
               payload = setitem ''deleted'' (PBool True) payload;
               payload = setitem ''deleted_at'' (PStr (isotime clk None)) payload
           in (Inr img1, Notifier_info ''image.delete'' (PayloadDict payload) tr1)))"

subsection \<open>ImageProxy.set_data\<close>

text \<open>The \<open>except\<close> clauses in the order of the source: the message sent with the error
  notification, and the exception raised afterwards. \<open>None\<close> when no clause matches.\<close>

fun upload_failure :: "image \<Rightarrow> exc \<Rightarrow> (string \<times> exc) option" where
  "upload_failure img (StorageFull m) =
     (let msg = ''Image storage media is full: '' @ m
      in Some (msg, HTTPError HTTPRequestEntityTooLarge msg))"
| "upload_failure img (StorageWriteDenied m) =
     (let msg = ''Insufficient permissions on image storage media: '' @ m
      in Some (msg, HTTPError HTTPServiceUnavailable msg))"
| "upload_failure img (ValueError m) =
     (let msg = ''Cannot save data for image '' @ image_id img @ '': '' @ m
      in Some (msg, HTTPError HTTPBadRequest m))"
| "upload_failure img (Duplicate m) =
     (let msg = ''Unable to upload duplicate image data for image ''
                  @ image_id img @ '': '' @ m
      in Some (msg, HTTPError HTTPConflict msg))"
| "upload_failure img (Forbidden m) =
     (let msg = ''Not allowed to upload image data for image ''
                  @ image_id img @ '': '' @ m
      in Some (msg, HTTPError HTTPForbidden msg))"
| "upload_failure img (NotFound m) =
     (let msg = ''Image '' @ image_id img
                  @ '' could not be found after upload. The image may ''
                  @ ''have been deleted during the upload: '' @ m
      in Some (msg, HTTPError HTTPNotFound m))"
| "upload_failure img (HTTPError c m) =
     (let msg = ''Failed to upload image data for image '' @ image_id img
                  @ '' due to HTTP error: '' @ m
      in Some (msg, HTTPError c m))"
| "upload_failure img (Exception m) =
     (let msg = ''Failed to upload image data for image '' @ image_id img
                  @ '' due to internal error: '' @ m
      in Some (msg, Exception m))"
| "upload_failure img (BaseException m) = None"

definition ImageProxy_set_data ::
  "clock \<Rightarrow> image wrapped \<Rightarrow> image \<Rightarrow> string list \<Rightarrow> nat option \<Rightarrow> image event list \<Rightarrow> image outcome" where
  "ImageProxy_set_data clk base img dat sz tr =
     (let payload = format_image_notification clk img;
          tr1 = Notifier_info ''image.prepare'' (PayloadDict payload) tr
      in case delegate base (ImageSetData img dat sz) tr1 of
           (Inl e, tr2) \<Rightarrow>
             (case upload_failure img e of
                None \<Rightarrow> (Inl e, tr2)
              | Some (msg, raised) \<Rightarrow>
                  (Inl raised, Notifier_error ''image.upload'' (PayloadText msg) tr2))
         | (Inr img1, tr2) \<Rightarrow>
             (let payload = format_image_notification clk img1;
                  tr3 = Notifier_info ''image.upload'' (PayloadDict payload) tr2;
                  tr4 = Notifier_info ''image.activate'' (PayloadDict payload) tr3
              in (Inr img1, tr4)))"

subsection \<open>TaskRepoProxy and TaskProxy\<close>

definition TaskRepoProxy_add :: "clock \<Rightarrow> task wrapped \<Rightarrow> task \<Rightarrow> task event list \<Rightarrow> task outcome" where
  "TaskRepoProxy_add clk base task tr =
     (let tr1 = Notifier_info ''task.create''
                  (PayloadDict (format_task_notification clk task)) tr
      in delegate base (RepoAdd task) tr1)"

text \<open>The last line of \<open>TaskRepoProxy.remove\<close> in the source is
  \<open>return super(TaskRepoProxy, self).add(task)\<close>.\<close>

definition TaskRepoProxy_remove :: "clock \<Rightarrow> task wrapped \<Rightarrow> task \<Rightarrow> task event list \<Rightarrow> task outcome" where
  "TaskRepoProxy_remove clk base task tr =
     (let payload = format_task_notification clk task;
          payload = setitem ''deleted'' (PBool True) payload;
          payload = setitem ''deleted_at'' (PStr (isotime clk None)) payload;
          tr1 = Notifier_info ''task.delete'' (PayloadDict payload) tr
      in delegate base (RepoAdd task) tr1)"

definition TaskProxy_run :: "clock \<Rightarrow> task wrapped \<Rightarrow> task \<Rightarrow> string \<Rightarrow> task event list \<Rightarrow> task outcome" where
  "TaskProxy_run clk base task executor tr =
     (let tr1 = Notifier_info ''task.run''
                  (PayloadDict (format_task_notification clk task)) tr
      in delegate base (TaskRun task executor) tr1)"

definition TaskProxy_begin_processing :: "clock \<Rightarrow> task wrapped \<Rightarrow> task \<Rightarrow> task event list \<Rightarrow> task outcome" where
  "TaskProxy_begin_processing clk base task tr =
     (let tr1 = Notifier_info ''task.processing''
                  (PayloadDict (format_task_notification clk task)) tr
      in delegate base (TaskBeginProcessing task) tr1)"

definition TaskProxy_succeed :: "clock \<Rightarrow> task wrapped \<Rightarrow> task \<Rightarrow> string \<Rightarrow> task event list \<Rightarrow> task outcome" where
  "TaskProxy_succeed clk base task result tr =
     (let tr1 = Notifier_info ''task.success''
                  (PayloadDict (format_task_notification clk task)) tr
      in delegate base (TaskSucceed task result) tr1)"

definition TaskProxy_fail :: "clock \<Rightarrow> task wrapped \<Rightarrow> task \<Rightarrow> string \<Rightarrow> task event list \<Rightarrow> task outcome" where
  "TaskProxy_fail clk base task message tr =
     (let tr1 = Notifier_info ''task.failure''
                  (PayloadDict (format_task_notification clk task)) tr
      in delegate base (TaskFail task message) tr1)"

subsection \<open>Concrete inputs\<close>

definition clock0 :: clock where
  "clock0 = \<lparr>utcnow = 0, strftime = (\<lambda>t. ''1970-01-01T00:00:00Z'')\<rparr>"

definition image0 :: image where
  "image0 = \<lparr>image_id = ''xyz'', name = Some ''disk'', status = ''queued'',
     created_at = Some 0, updated_at = Some 0, min_disk = 0, min_ram = 0,
     protected = False, checksum = None, owner = Some ''someone'',
     disk_format = Some ''raw'', container_format = Some ''bare'',
     image_size = None, visibility = ''private'', extra_properties = [],
     tags = [], locations = [\<lparr>url = ''file:///g/there/it/is0'', metadata = []\<rparr>]\<rparr>"

definition task0 :: task where
  "task0 = \<lparr>task_id = ''t1'', task_type = ''import'', task_status = ''pending'',
     task_owner = Some ''someone'', task_expires_at = None, task_created_at = Some 0,
     task_updated_at = Some 0, task_input = [(''import_from'', ''swift://key@host/img'')],
     task_result = None, task_message = None\<rparr>"

text \<open>A wrapped object on which every call succeeds and leaves the entity as it was,
  one on which every call raises, and a store that is full.\<close>

definition accepting :: "'e wrapped" where
  "accepting c =
     (case c of RepoAdd x \<Rightarrow> Inr x | RepoSave x \<Rightarrow> Inr x | RepoRemove x \<Rightarrow> Inr x
      | TaskRun x ex \<Rightarrow> Inr x | TaskBeginProcessing x \<Rightarrow> Inr x
      | TaskSucceed x r \<Rightarrow> Inr x | TaskFail x m \<Rightarrow> Inr x
      | ImageSetData x d s \<Rightarrow> Inr x)"

definition failing :: "'e wrapped" where
  "failing c = Inl (Exception ''boom'')"

definition full_store :: "image wrapped" where
  "full_store c = Inl (StorageFull ''no space left'')"

text \<open>A wrapped image whose \<open>set_data\<close> is interrupted from the keyboard.\<close>

definition interrupted :: "image wrapped" where
  "interrupted c = Inl (BaseException ''KeyboardInterrupt'')"

text \<open>The keys a consumer finds in a payload: a message string has none.\<close>

fun payload_keys :: "payload \<Rightarrow> string list" where
  "payload_keys (PayloadDict d) = keys d"
| "payload_keys (PayloadText m) = []"

text \<open>The notifications of a trace that carry a given event type.\<close>

fun is_notification :: "string \<Rightarrow> 'e event \<Rightarrow> bool" where
  "is_notification ty (Notify p ty' pl) = (ty = ty')"
| "is_notification ty (Called c) = False"

definition notifications :: "string \<Rightarrow> 'e event list \<Rightarrow> 'e event list" where
  "notifications ty tr = filter (is_notification ty) tr"

fun is_call :: "'e call \<Rightarrow> 'e event \<Rightarrow> bool" where
  "is_call c (Notify p ty pl) = False"
| "is_call c (Called c') = (c = c')"

definition calls :: "'e call \<Rightarrow> 'e event list \<Rightarrow> nat" where
  "calls c tr = length (filter (is_call c) tr)"


section \<open>Quota enforcement (glance/quota.py, exercised by glance/tests/unit/test_quota.py)\<close>

subsection \<open>Fixtures of the test module\<close>

text \<open>\<open>FakeContext\<close> and \<open>FakeImage\<close> of test_quota.py. \<open>fi_extra_properties\<close> is the
  attribute the property tests assign on their image.\<close>

record request_context =
  ctx_owner :: string
  is_admin :: bool

definition FakeContext :: request_context where
  "FakeContext = \<lparr>ctx_owner = ''someone'', is_admin = False\<rparr>"

record fake_image =
  fi_size :: "nat option"
  fi_image_id :: string
  fi_locations :: "location list"
  fi_tags :: "string fset"
  fi_extra_properties :: "(string \<times> string) list"

definition FakeImage :: fake_image where
  "FakeImage = \<lparr>fi_size = None, fi_image_id = ''someid'',
     fi_locations = [\<lparr>url = ''file:///not/a/path'', metadata = []\<rparr>],
     fi_tags = {||}, fi_extra_properties = []\<rparr>"

text \<open>\<open>FakeImage.set_data\<close>: the size becomes the number of bytes the stream yields.\<close>

definition FakeImage_set_data :: "fake_image \<Rightarrow> string list \<Rightarrow> nat option \<Rightarrow> fake_image" where
  "FakeImage_set_data img dat sz = img\<lparr>fi_size := Some (sum_list (map length dat))\<rparr>"

text \<open>\<open>'*' * n\<close>, read one character at a time.\<close>

definition stars :: "nat \<Rightarrow> string list" where
  "stars n = replicate n ''*''"

subsection \<open>Configuration and errors\<close>

text \<open>Modelled from the spec: glance/quota.py and the configuration options it registers
  are not among the sources. The four quota settings of section 3 of the specification:
  signed integers, negative meaning unlimited.\<close>

record config =
  user_storage_quota :: int
  image_property_quota :: int
  image_tag_quota :: int
  image_member_quota :: int

text \<open>Modelled from the spec: glance/common/exception.py is not among the sources.
  \<open>StorageQuotaFull\<close> carries the attempted size, the consumed size and the limit.\<close>

datatype storage_quota_full = StorageQuotaFull nat nat int

text \<open>Modelled from the spec: glance/common/exception.py is not among the sources. Each
  limit error carries the attempted count and the maximum; the names are those the tests
  expect.\<close>

datatype limit_exceeded =
    ImagePropertyLimitExceeded nat int
  | ImageTagLimitExceeded nat int
  | ImageMemberLimitExceeded nat int

datatype count_kind = Properties | Tags | Members

text \<open>Decimal rendering of a number, as \<open>str\<close> does for the message.\<close>

fun str_nat :: "nat \<Rightarrow> string" where
  "str_nat n =
     (if n < 10 then [''0123456789'' ! n]
      else str_nat (n div 10) @ [''0123456789'' ! (n mod 10)])"

declare str_nat.simps [simp del]

definition str_int :: "int \<Rightarrow> string" where
  "str_int i = (if i < 0 then ''-'' @ str_nat (nat (- i)) else str_nat (nat i))"

text \<open>Reading a decimal numeral back, to state that \<open>str_nat\<close> is decimal rendering.\<close>

definition digit_val :: "char \<Rightarrow> nat" where
  "digit_val c = of_char c - 48"

definition nat_of_str :: "string \<Rightarrow> nat" where
  "nat_of_str s = foldl (\<lambda>a c. 10 * a + digit_val c) 0 s"

text \<open>Modelled from the spec: the text of the limit errors is defined in
  glance/common/exception.py, not among the sources. The violation report of sections 3
  and 4.1: \<open>Attempted: {n}, Maximum: {limit}\<close>.\<close>

fun exc_message :: "limit_exceeded \<Rightarrow> string" where
  "exc_message (ImagePropertyLimitExceeded n m) =
     ''Attempted: '' @ str_nat n @ '', Maximum: '' @ str_int m"
| "exc_message (ImageTagLimitExceeded n m) =
     ''Attempted: '' @ str_nat n @ '', Maximum: '' @ str_int m"
| "exc_message (ImageMemberLimitExceeded n m) =
     ''Attempted: '' @ str_nat n @ '', Maximum: '' @ str_int m"

subsection \<open>Quota policy engine\<close>

text \<open>Modelled from the spec: the storage check of glance/quota.py (section 4.1). It
  succeeds if the requested additional bytes plus the bytes already consumed stay within
  the quota, or the quota is unlimited, or the caller is admin.\<close>

definition check_storage_quota :: "request_context \<Rightarrow> config \<Rightarrow> nat \<Rightarrow> nat \<Rightarrow> storage_quota_full + unit" where
  "check_storage_quota ctx cfg requested consumed =
     (if is_admin ctx \<or> user_storage_quota cfg < 0
         \<or> int requested + int consumed \<le> user_storage_quota cfg
      then Inr ()
      else Inl (StorageQuotaFull requested consumed (user_storage_quota cfg)))"

text \<open>Modelled from the spec: the count check of glance/quota.py (section 4.1). An
  unlimited setting bypasses the check; otherwise the attempted count must not exceed
  the limit.\<close>

definition check_count_quota :: "count_kind \<Rightarrow> nat \<Rightarrow> int \<Rightarrow> limit_exceeded + unit" where
  "check_count_quota kind attempted maximum =
     (if maximum < 0 then Inr ()
      else if int attempted \<le> maximum then Inr ()
      else Inl (case kind of
                  Properties \<Rightarrow> ImagePropertyLimitExceeded attempted maximum
                | Tags \<Rightarrow> ImageTagLimitExceeded attempted maximum
                | Members \<Rightarrow> ImageMemberLimitExceeded attempted maximum))"

subsection \<open>Collection guard: tags\<close>

text \<open>Modelled from the spec: \<open>QuotaImageTagsProxy.add\<close> of glance/quota.py (section
  4.3). The cardinality of the resulting set is checked; only if the check passes is the
  item added.\<close>

definition QuotaImageTagsProxy_add :: "config \<Rightarrow> string \<Rightarrow> fake_image \<Rightarrow> (limit_exceeded + unit) \<times> fake_image" where
  "QuotaImageTagsProxy_add cfg item img =
     (case check_count_quota Tags (fcard (finsert item (fi_tags img))) (image_tag_quota cfg) of
        Inl e \<Rightarrow> (Inl e, img)
      | Inr u \<Rightarrow> (Inr (), img\<lparr>fi_tags := finsert item (fi_tags img)\<rparr>))"

text \<open>Modelled from the spec: the assignment \<open>image.tags = value\<close> through the quota
  \<open>ImageProxy\<close> of glance/quota.py (bulk replace, section 4.3).\<close>

definition quota_ImageProxy_set_tags :: "config \<Rightarrow> string list \<Rightarrow> fake_image \<Rightarrow> (limit_exceeded + unit) \<times> fake_image" where
  "quota_ImageProxy_set_tags cfg val img =
     (case check_count_quota Tags (fcard (fset_of_list val)) (image_tag_quota cfg) of
        Inl e \<Rightarrow> (Inl e, img)
      | Inr u \<Rightarrow> (Inr (), img\<lparr>fi_tags := fset_of_list val\<rparr>))"

subsection \<open>Collection guard: locations\<close>

text \<open>Modelled from the spec: the weight of one location is the size of the image that
  owns it (section 4.3); the specification gives no weight for an image of unknown size,
  taken as 0 here.\<close>

definition weight :: "fake_image \<Rightarrow> nat" where
  "weight img = (case fi_size img of None \<Rightarrow> 0 | Some s \<Rightarrow> s)"

text \<open>Modelled from the spec: the locations guard of glance/quota.py (section 4.3).
  \<open>others\<close> is the number of bytes the owner's other images consume. An addition is
  checked as the weight of the added locations on top of all that is consumed already;
  if the check fails the list is left as it was.\<close>

definition guarded_add ::
  "request_context \<Rightarrow> config \<Rightarrow> nat \<Rightarrow> location list \<Rightarrow> (location list \<Rightarrow> location list) \<Rightarrow> fake_image
     \<Rightarrow> (storage_quota_full + unit) \<times> fake_image" where
  "guarded_add ctx cfg others added apply img =
     (case check_storage_quota ctx cfg (weight img * length added)
             (others + weight img * length (fi_locations img)) of
        Inl e \<Rightarrow> (Inl e, img)
      | Inr u \<Rightarrow> (Inr (), img\<lparr>fi_locations := apply (fi_locations img)\<rparr>))"

text \<open>Modelled from the spec: \<open>append\<close> of the locations guard.\<close>

definition QuotaImageLocationsProxy_append ::
  "request_context \<Rightarrow> config \<Rightarrow> nat \<Rightarrow> location \<Rightarrow> fake_image \<Rightarrow> (storage_quota_full + unit) \<times> fake_image" where
  "QuotaImageLocationsProxy_append ctx cfg others item img =
     guarded_add ctx cfg others [item] (\<lambda>ls. ls @ [item]) img"

text \<open>Python's \<open>list.insert(i, x)\<close>: a negative index counts from the end, and an index
  beyond either end is clamped.\<close>

definition list_insert :: "int \<Rightarrow> 'a \<Rightarrow> 'a list \<Rightarrow> 'a list" where
  "list_insert i x xs =
     (let n = int (length xs);
          j = (if i < 0 then max 0 (n + i) else min n i)
      in take (nat j) xs @ [x] @ drop (nat j) xs)"

text \<open>Modelled from the spec: \<open>insert\<close> of the locations guard.\<close>

definition QuotaImageLocationsProxy_insert ::
  "request_context \<Rightarrow> config \<Rightarrow> nat \<Rightarrow> int \<Rightarrow> location \<Rightarrow> fake_image \<Rightarrow> (storage_quota_full + unit) \<times> fake_image" where
  "QuotaImageLocationsProxy_insert ctx cfg others i item img =
     guarded_add ctx cfg others [item] (list_insert i item) img"

text \<open>Modelled from the spec: \<open>extend\<close> of the locations guard.\<close>

definition QuotaImageLocationsProxy_extend ::
  "request_context \<Rightarrow> config \<Rightarrow> nat \<Rightarrow> location list \<Rightarrow> fake_image \<Rightarrow> (storage_quota_full + unit) \<times> fake_image" where
  "QuotaImageLocationsProxy_extend ctx cfg others items img =
     guarded_add ctx cfg others items (\<lambda>ls. ls @ items) img"

text \<open>Modelled from the spec: in-place concatenation (\<open>+=\<close>) of the locations guard.\<close>

definition QuotaImageLocationsProxy_iadd ::
  "request_context \<Rightarrow> config \<Rightarrow> nat \<Rightarrow> location list \<Rightarrow> fake_image \<Rightarrow> (storage_quota_full + unit) \<times> fake_image" where
  "QuotaImageLocationsProxy_iadd ctx cfg others items img =
     guarded_add ctx cfg others items (\<lambda>ls. ls @ items) img"

text \<open>Modelled from the spec: the assignment \<open>image.locations = value\<close> through the
  quota \<open>ImageProxy\<close> of glance/quota.py (bulk replace). The weight of the new list
  replaces what the image consumed before.\<close>

definition quota_ImageProxy_set_locations ::
  "request_context \<Rightarrow> config \<Rightarrow> nat \<Rightarrow> location list \<Rightarrow> fake_image \<Rightarrow> (storage_quota_full + unit) \<times> fake_image" where
  "quota_ImageProxy_set_locations ctx cfg others val img =
     (case check_storage_quota ctx cfg (weight img * length val) others of
        Inl e \<Rightarrow> (Inl e, img)
      | Inr u \<Rightarrow> (Inr (), img\<lparr>fi_locations := val\<rparr>))"

subsection \<open>Properties and members\<close>

text \<open>Modelled from the spec: \<open>save\<close> and \<open>add\<close> of the quota \<open>ImageRepoProxy\<close> of
  glance/quota.py. The number of extra properties is checked before the wrapped
  repository is called (sections 4.2 and 8).\<close>

definition quota_ImageRepoProxy_save ::
  "config \<Rightarrow> fake_image wrapped \<Rightarrow> fake_image \<Rightarrow> fake_image event list
     \<Rightarrow> (limit_exceeded + exc + fake_image) \<times> fake_image event list" where
  "quota_ImageRepoProxy_save cfg base img tr =
     (case check_count_quota Properties (length (fi_extra_properties img))
             (image_property_quota cfg) of
        Inl e \<Rightarrow> (Inl e, tr)
      | Inr u \<Rightarrow> (case delegate base (RepoSave img) tr of (r, tr1) \<Rightarrow> (Inr r, tr1)))"

text \<open>Modelled from the spec: see \<open>quota_ImageRepoProxy_save\<close>.\<close>

definition quota_ImageRepoProxy_add ::
  "config \<Rightarrow> fake_image wrapped \<Rightarrow> fake_image \<Rightarrow> fake_image event list
     \<Rightarrow> (limit_exceeded + exc + fake_image) \<times> fake_image event list" where
  "quota_ImageRepoProxy_add cfg base img tr =
     (case check_count_quota Properties (length (fi_extra_properties img))
             (image_property_quota cfg) of
        Inl e \<Rightarrow> (Inl e, tr)
      | Inr u \<Rightarrow> (case delegate base (RepoAdd img) tr of (r, tr1) \<Rightarrow> (Inr r, tr1)))"

text \<open>Modelled from the spec: \<open>ImageMemberFactoryProxy.new_image_member\<close> of
  glance/quota.py. The image has \<open>current\<close> members; the attempted count is one more.
  The result is the id of the new member.\<close>

definition ImageMemberFactoryProxy_new_image_member :: "config \<Rightarrow> nat \<Rightarrow> string \<Rightarrow> limit_exceeded + string" where
  "ImageMemberFactoryProxy_new_image_member cfg current member_id =
     (case check_count_quota Members (current + 1) (image_member_quota cfg) of
        Inl e \<Rightarrow> Inl e
      | Inr u \<Rightarrow> Inr member_id)"

subsection \<open>Streaming upload under the storage quota\<close>

text \<open>What reaches the storage backend: the data of an image written (image id, number
  of bytes), and the data at a location deleted again.\<close>

datatype backend_event = Written string nat | Deleted string

text \<open>Modelled from the spec: \<open>set_data\<close> of the quota \<open>ImageProxy\<close> of glance/quota.py
  (section 4.1, the three tiers of the requested size). A declared size is checked
  before the write; without one the check is deferred. After the stream is drained the
  real size is checked again, and a failure then deletes what was written before it is
  raised. \<open>others\<close> is the number of bytes the owner's other images consume.\<close>

definition quota_ImageProxy_set_data ::
  "request_context \<Rightarrow> config \<Rightarrow> nat \<Rightarrow> fake_image \<Rightarrow> string list \<Rightarrow> nat option \<Rightarrow> backend_event list
     \<Rightarrow> (storage_quota_full + unit) \<times> fake_image \<times> backend_event list" where
  "quota_ImageProxy_set_data ctx cfg others img dat sz tr =
     (case (case sz of None \<Rightarrow> Inr ()
            | Some declared \<Rightarrow> check_storage_quota ctx cfg declared others) of
        Inl e \<Rightarrow> (Inl e, img, tr)
      | Inr u \<Rightarrow>
          (let img1 = FakeImage_set_data img dat sz;
               tr1 = tr @ [Written (fi_image_id img1) (weight img1)]
           in case check_storage_quota ctx cfg (weight img1) others of
                Inl e \<Rightarrow> (Inl e, img1, tr1 @ map (\<lambda>l. Deleted (url l)) (take 1 (fi_locations img1)))
              | Inr u \<Rightarrow> (Inr (), img1, tr1)))"

text \<open>The configurations of the tests: one setting given, the others at the unlimited
  value.\<close>

definition unlimited :: config where
  "unlimited = \<lparr>user_storage_quota = - 1, image_property_quota = - 1,
     image_tag_quota = - 1, image_member_quota = - 1\<rparr>"

definition admin :: request_context where
  "admin = \<lparr>ctx_owner = ''someone'', is_admin = True\<rparr>"

definition a_path :: location where
  "a_path = \<lparr>url = ''file:///a/path'', metadata = []\<rparr>"

text \<open>The image of \<open>_get_image\<close>, holding the locations the test stores for it.\<close>

definition sized_image :: "nat \<Rightarrow> nat \<Rightarrow> fake_image" where
  "sized_image sz location_count =
     FakeImage\<lparr>fi_size := Some sz, fi_image_id := ''xyz'',
       fi_locations :=
         map (\<lambda>i. \<lparr>url = ''file:///g/there/it/is'' @ str_nat i, metadata = []\<rparr>)
           [0..<location_count]\<rparr>"

text \<open>\<open>self.config(user_storage_quota=quota)\<close>.\<close>

definition storage_quota :: "int \<Rightarrow> config" where
  "storage_quota q = unlimited\<lparr>user_storage_quota := q\<rparr>"

text \<open>A configuration with every dimension limited, and an image of size 10 with two
  locations and two extra properties.\<close>

definition strict :: config where
  "strict = \<lparr>user_storage_quota = 20, image_property_quota = 1,
     image_tag_quota = 0, image_member_quota = 0\<rparr>"

definition nothing_allowed :: config where
  "nothing_allowed = \<lparr>user_storage_quota = 0, image_property_quota = 0,
     image_tag_quota = 0, image_member_quota = 0\<rparr>"

definition crowded :: fake_image where
  "crowded = (sized_image 10 2)\<lparr>fi_extra_properties := [(''foo'', ''bar''), (''foo2'', ''bar2'')]\<rparr>"

section \<open>Properties of the notification proxies\<close>

lemmas sink_defs = delegate_def Notifier_info_def Notifier_error_def

lemma notifications_append:
  "notifications ty (tr @ tr') = notifications ty tr @ notifications ty tr'"
  by (simp add: notifications_def)

subsection \<open>Removal through the repository proxies\<close>

text \<open>
  \<open>ImageRepoProxy.remove\<close> does what is expected of a removal: when the wrapped
  repository accepts the call, \<open>remove\<close> has been invoked on it once, and one
  \<open>image.delete\<close> notification follows whose payload has \<open>deleted = True\<close> and a
  \<open>deleted_at\<close> string.
\<close>

lemma image_remove_once_and_notified:
  assumes "base (RepoRemove img) = Inr img1"
  shows "\<exists>d. snd (ImageRepoProxy_remove clk base img []) =
            [Called (RepoRemove img), Notify INFO ''image.delete'' (PayloadDict d)]
          \<and> getitem d ''deleted'' = Some (PBool True)
          \<and> getitem d ''deleted_at'' = Some (PStr (isotime clk None))"
  using assms
  by (simp add: sink_defs ImageRepoProxy_remove_def Let_def format_image_notification_def getitem_def)

text \<open>\<open>TaskRepoProxy.remove\<close> emits its one \<open>task.delete\<close> notification with the same
  two fields, and then makes one call on the wrapped repository.\<close>

lemma task_remove_notified:
  "\<exists>d c. snd (TaskRepoProxy_remove clk base task []) =
            [Notify INFO ''task.delete'' (PayloadDict d), Called c]
          \<and> getitem d ''deleted'' = Some (PBool True)
          \<and> getitem d ''deleted_at'' = Some (PStr (isotime clk None))"
  by (simp add: sink_defs TaskRepoProxy_remove_def Let_def format_task_notification_def getitem_def)

text \<open>
  Claim C1: for every entity removed through \<open>ImageRepoProxy.remove\<close> or
  \<open>TaskRepoProxy.remove\<close>, the wrapped repository's remove operation is invoked exactly
  once on that entity and exactly one delete notification with \<open>deleted = True\<close> and a
  non-null \<open>deleted_at\<close> is emitted. The task proxy does not do this: removing
  \<open>task0\<close> through it, over a repository that accepts every call, emits the
  notification and then calls \<open>add\<close> on the wrapped repository; \<open>remove\<close> is never
  called.
\<close>

theorem task_remove_delegates_to_add:
  "TaskRepoProxy_remove clock0 accepting task0 [] =
     (Inr task0,
      [Notify INFO ''task.delete''
         (PayloadDict (setitem ''deleted_at'' (PStr ''1970-01-01T00:00:00Z'')
            (setitem ''deleted'' (PBool True) (format_task_notification clock0 task0)))),
       Called (RepoAdd task0)])
   \<and> calls (RepoRemove task0) (snd (TaskRepoProxy_remove clock0 accepting task0 [])) = 0
   \<and> calls (RepoAdd task0) (snd (TaskRepoProxy_remove clock0 accepting task0 [])) = 1"
  by (simp add: sink_defs TaskRepoProxy_remove_def accepting_def Let_def calls_def isotime_def clock0_def)

subsection \<open>Errors of an upload\<close>

text \<open>
  Claim C3 as stated: when the wrapped \<open>set_data\<close> raises, the proxy raises an error of
  the same kind. It does not: over a store that raises \<open>StorageFull\<close>, the proxy raises
  the HTTP error \<open>HTTPRequestEntityTooLarge\<close>.
\<close>

theorem set_data_reraise_kind_counterexample:
  "full_store (ImageSetData image0 [''data''] None) = Inl (StorageFull ''no space left'')
   \<and> fst (ImageProxy_set_data clock0 full_store image0 [''data''] None [])
       = Inl (HTTPError HTTPRequestEntityTooLarge ''Image storage media is full: no space left'')
   \<and> kind_of (HTTPError HTTPRequestEntityTooLarge ''Image storage media is full: no space left'')
       \<noteq> kind_of (StorageFull ''no space left'')"
  by (simp add: sink_defs ImageProxy_set_data_def full_store_def Let_def)

text \<open>
  An exception that no clause catches passes through \<open>set_data\<close> as it is: the
  \<open>image.prepare\<close> notification and the call are all that happened, and no
  \<open>image.upload\<close> notification is emitted.
\<close>

lemma set_data_uncaught_propagates:
  assumes "base (ImageSetData img dat sz) = Inl (BaseException m)"
  shows "ImageProxy_set_data clk base img dat sz tr =
       (Inl (BaseException m),
        tr @ [Notify INFO ''image.prepare'' (PayloadDict (format_image_notification clk img)),
              Called (ImageSetData img dat sz)])"
  using assms by (simp add: sink_defs ImageProxy_set_data_def Let_def)

text \<open>
  Claim C3, amended: for every \<open>set_data\<close> call through the notifying \<open>ImageProxy\<close> in
  which the wrapped \<open>set_data\<close> raises an error \<open>e\<close> of one of the listed kinds (those
  an \<open>except\<close> clause catches), the proxy emits the \<open>image.prepare\<close> notification,
  makes the call, emits one \<open>image.upload\<close> error notification whose message ends with
  the text of \<open>e\<close>, and then always raises: the HTTP error that belongs to the kind of
  \<open>e\<close> (413 for \<open>StorageFull\<close>, 503 for \<open>StorageWriteDenied\<close>, 400 for
  \<open>ValueError\<close>, 409 for \<open>Duplicate\<close>, 403 for \<open>Forbidden\<close>, 404 for \<open>NotFound\<close>),
  or \<open>e\<close> itself when \<open>e\<close> is an HTTP error or any other \<open>Exception\<close>. The HTTP
  error carries the message, except for \<open>ValueError\<close> and \<open>NotFound\<close>, where it
  carries the text of \<open>e\<close> alone.
\<close>

theorem set_data_error_notified_then_raised:
  assumes "base (ImageSetData img dat sz) = Inl e" and "caught e"
  shows "\<exists>msg raised.
     ImageProxy_set_data clk base img dat sz tr =
       (Inl raised,
        tr @ [Notify INFO ''image.prepare'' (PayloadDict (format_image_notification clk img)),
              Called (ImageSetData img dat sz),
              Notify ERROR ''image.upload'' (PayloadText msg)])
     \<and> suffix (str e) msg
     \<and> raised = (case e of
          StorageFull m \<Rightarrow> HTTPError HTTPRequestEntityTooLarge msg
        | StorageWriteDenied m \<Rightarrow> HTTPError HTTPServiceUnavailable msg
        | ValueError m \<Rightarrow> HTTPError HTTPBadRequest m
        | Duplicate m \<Rightarrow> HTTPError HTTPConflict msg
        | Forbidden m \<Rightarrow> HTTPError HTTPForbidden msg
        | NotFound m \<Rightarrow> HTTPError HTTPNotFound m
        | HTTPError c m \<Rightarrow> e
        | Exception m \<Rightarrow> e
        | BaseException m \<Rightarrow> e)"
  using assms
  by (cases e) (simp_all add: sink_defs ImageProxy_set_data_def Let_def suffix_def)

theorem set_data_error_notified_then_raised_witness:
  "full_store (ImageSetData image0 [''data''] None) = Inl (StorageFull ''no space left'') \<and>
   caught (StorageFull ''no space left'') \<and>
   (\<exists>msg raised.
     ImageProxy_set_data clock0 full_store image0 [''data''] None [] =
       (Inl raised,
        [Notify INFO ''image.prepare'' (PayloadDict (format_image_notification clock0 image0)),
         Called (ImageSetData image0 [''data''] None),
         Notify ERROR ''image.upload'' (PayloadText msg)])
     \<and> suffix ''no space left'' msg
     \<and> raised = HTTPError HTTPRequestEntityTooLarge msg)"
proof -
  have h: "full_store (ImageSetData image0 [''data''] None) = Inl (StorageFull ''no space left'')"
    by (simp add: full_store_def)
  have k: "caught (StorageFull ''no space left'')" by simp
  from set_data_error_notified_then_raised
         [of full_store image0 "[''data'']" None "StorageFull ''no space left''" clock0 "[]"] h k
  show ?thesis by simp
qed

subsection \<open>Order of delegation and notification\<close>

text \<open>
  Claim C4 as stated: outside \<open>set_data\<close> a proxy notifies only after the wrapped call
  has succeeded, and emits nothing if that call raises. \<open>TaskProxy.run\<close> over a task
  whose \<open>run\<close> raises has emitted \<open>task.run\<close> before the call was made.
\<close>

theorem task_run_notifies_before_failure_counterexample:
  "TaskProxy_run clock0 failing task0 ''executor'' [] =
     (Inl (Exception ''boom''),
      [Notify INFO ''task.run'' (PayloadDict (format_task_notification clock0 task0)),
       Called (TaskRun task0 ''executor'')])"
  by (simp add: sink_defs TaskProxy_run_def failing_def Let_def)

text \<open>
  Claim C4, amended: \<open>ImageRepoProxy\<close> (\<open>save\<close>, \<open>add\<close>, \<open>remove\<close>) notifies only after
  the delegated call has succeeded, and emits nothing when that call raises.
  \<open>TaskRepoProxy\<close> (\<open>add\<close>, \<open>remove\<close>) and \<open>TaskProxy\<close> (\<open>run\<close>, \<open>begin_processing\<close>,
  \<open>succeed\<close>, \<open>fail\<close>) notify first and delegate afterwards, so that their notification
  is emitted whatever the delegated call does, and the outcome of the proxy is the outcome
  of that call.
\<close>

theorem notification_order:
  "(base (RepoSave img) = Inl e \<longrightarrow>
      ImageRepoProxy_save clk base img tr = (Inl e, tr @ [Called (RepoSave img)]))
   \<and> (base (RepoSave img) = Inr img1 \<longrightarrow>
      ImageRepoProxy_save clk base img tr =
        (Inr img1, tr @ [Called (RepoSave img),
           Notify INFO ''image.update'' (PayloadDict (format_image_notification clk img1))]))
   \<and> (base (RepoAdd img) = Inl e \<longrightarrow>
      ImageRepoProxy_add clk base img tr = (Inl e, tr @ [Called (RepoAdd img)]))
   \<and> (base (RepoAdd img) = Inr img1 \<longrightarrow>
      ImageRepoProxy_add clk base img tr =
        (Inr img1, tr @ [Called (RepoAdd img),
           Notify INFO ''image.create'' (PayloadDict (format_image_notification clk img1))]))
   \<and> (base (RepoRemove img) = Inl e \<longrightarrow>
      ImageRepoProxy_remove clk base img tr = (Inl e, tr @ [Called (RepoRemove img)]))
   \<and> (base (RepoRemove img) = Inr img1 \<longrightarrow>
      (\<exists>p. ImageRepoProxy_remove clk base img tr =
        (Inr img1, tr @ [Called (RepoRemove img), Notify INFO ''image.delete'' p])))
   \<and> TaskRepoProxy_add clk tbase task ttr =
        (tbase (RepoAdd task),
         ttr @ [Notify INFO ''task.create'' (PayloadDict (format_task_notification clk task)),
                Called (RepoAdd task)])
   \<and> (\<exists>c p. TaskRepoProxy_remove clk tbase task ttr =
        (tbase c, ttr @ [Notify INFO ''task.delete'' p, Called c]))
   \<and> TaskProxy_run clk tbase task executor ttr =
        (tbase (TaskRun task executor),
         ttr @ [Notify INFO ''task.run'' (PayloadDict (format_task_notification clk task)),
                Called (TaskRun task executor)])
   \<and> TaskProxy_begin_processing clk tbase task ttr =
        (tbase (TaskBeginProcessing task),
         ttr @ [Notify INFO ''task.processing'' (PayloadDict (format_task_notification clk task)),
                Called (TaskBeginProcessing task)])
   \<and> TaskProxy_succeed clk tbase task result ttr =
        (tbase (TaskSucceed task result),
         ttr @ [Notify INFO ''task.success'' (PayloadDict (format_task_notification clk task)),
                Called (TaskSucceed task result)])
   \<and> TaskProxy_fail clk tbase task message ttr =
        (tbase (TaskFail task message),
         ttr @ [Notify INFO ''task.failure'' (PayloadDict (format_task_notification clk task)),
                Called (TaskFail task message)])"
  by (simp add: sink_defs ImageRepoProxy_save_def ImageRepoProxy_add_def
        ImageRepoProxy_remove_def TaskRepoProxy_add_def TaskRepoProxy_remove_def TaskProxy_run_def
        TaskProxy_begin_processing_def TaskProxy_succeed_def TaskProxy_fail_def Let_def)

theorem notification_order_witness:
  "failing (RepoSave image0) = Inl (Exception ''boom'') \<and>
   ImageRepoProxy_save clock0 failing image0 [] = (Inl (Exception ''boom''), [Called (RepoSave image0)]) \<and>
   accepting (RepoSave image0) = Inr image0 \<and>
   ImageRepoProxy_save clock0 accepting image0 [] =
     (Inr image0, [Called (RepoSave image0),
        Notify INFO ''image.update'' (PayloadDict (format_image_notification clock0 image0))]) \<and>
   failing (RepoAdd image0) = Inl (Exception ''boom'') \<and>
   ImageRepoProxy_add clock0 failing image0 [] = (Inl (Exception ''boom''), [Called (RepoAdd image0)]) \<and>
   accepting (RepoAdd image0) = Inr image0 \<and>
   ImageRepoProxy_add clock0 accepting image0 [] =
     (Inr image0, [Called (RepoAdd image0),
        Notify INFO ''image.create'' (PayloadDict (format_image_notification clock0 image0))]) \<and>
   failing (RepoRemove image0) = Inl (Exception ''boom'') \<and>
   ImageRepoProxy_remove clock0 failing image0 [] = (Inl (Exception ''boom''), [Called (RepoRemove image0)]) \<and>
   accepting (RepoRemove image0) = Inr image0 \<and>
   (\<exists>p. ImageRepoProxy_remove clock0 accepting image0 [] =
     (Inr image0, [Called (RepoRemove image0), Notify INFO ''image.delete'' p]))"
  using notification_order
          [of failing image0 "Exception ''boom''" clock0 "[]" image0 failing task0 "[]" "''x''" "''r''" "''m''"]
        notification_order
          [of accepting image0 "Exception ''boom''" clock0 "[]" image0 failing task0 "[]" "''x''" "''r''" "''m''"]
  by (simp add: failing_def accepting_def)

subsection \<open>Notifications of an upload\<close>

text \<open>
  Claim C8: every \<open>set_data\<close> call through the notifying \<open>ImageProxy\<close> emits an
  \<open>image.prepare\<close> info notification with the snapshot of the image as it is, before the
  wrapped write is attempted; when the write succeeds, an \<open>image.upload\<close> info
  notification and then a separate \<open>image.activate\<close> info notification follow, both
  with the snapshot of the image as the write left it.
\<close>

theorem set_data_prepare_upload_activate:
  "(\<exists>rest. snd (ImageProxy_set_data clk base img dat sz tr) =
      tr @ Notify INFO ''image.prepare'' (PayloadDict (format_image_notification clk img))
         # Called (ImageSetData img dat sz) # rest)
   \<and> (base (ImageSetData img dat sz) = Inr img1 \<longrightarrow>
        ImageProxy_set_data clk base img dat sz tr =
          (Inr img1,
           tr @ [Notify INFO ''image.prepare'' (PayloadDict (format_image_notification clk img)),
                 Called (ImageSetData img dat sz),
                 Notify INFO ''image.upload'' (PayloadDict (format_image_notification clk img1)),
                 Notify INFO ''image.activate'' (PayloadDict (format_image_notification clk img1))]))"
  by (cases "base (ImageSetData img dat sz)")
     (simp_all add: sink_defs ImageProxy_set_data_def Let_def split: prod.splits option.splits)

theorem set_data_prepare_upload_activate_witness:
  "accepting (ImageSetData image0 [''ab''] None) = Inr image0 \<and>
   ImageProxy_set_data clock0 accepting image0 [''ab''] None [] =
     (Inr image0,
      [Notify INFO ''image.prepare'' (PayloadDict (format_image_notification clock0 image0)),
       Called (ImageSetData image0 [''ab''] None),
       Notify INFO ''image.upload'' (PayloadDict (format_image_notification clock0 image0)),
       Notify INFO ''image.activate'' (PayloadDict (format_image_notification clock0 image0))])"
  using set_data_prepare_upload_activate [of clock0 accepting image0 "[''ab'']" None "[]" image0]
  by (simp add: accepting_def)

subsection \<open>What the payloads leave out\<close>

text \<open>
  Claim C9: the formatted image payload contains no location data: it has no location
  key, and it is the same whatever the locations of the image are; the two fields that
  \<open>remove\<close> overwrites for \<open>image.delete\<close> add no key. The formatted task
  payload contains neither the input nor the result of the task: it has no input key,
  its \<open>result\<close> is \<open>None\<close>, and it is the same whatever the input and the result of the
  task are.
\<close>

theorem payloads_exclude_sensitive_data:
  "format_image_notification clk (img\<lparr>locations := ls\<rparr>) = format_image_notification clk img
   \<and> ''location'' \<notin> set (keys (format_image_notification clk img))
   \<and> ''locations'' \<notin> set (keys (format_image_notification clk img))
   \<and> ''url'' \<notin> set (keys (format_image_notification clk img))
   \<and> keys (setitem ''deleted_at'' v2 (setitem ''deleted'' v1 (format_image_notification clk img)))
       = keys (format_image_notification clk img)
   \<and> format_task_notification clk (task\<lparr>task_input := i, task_result := r\<rparr>)
       = format_task_notification clk task
   \<and> ''input'' \<notin> set (keys (format_task_notification clk task))
   \<and> getitem (format_task_notification clk task) ''result'' = Some PNone"
  by (simp add: format_image_notification_def format_task_notification_def keys_def getitem_def)

subsection \<open>The payload of the upload error\<close>

text \<open>
  Claim C10: when \<open>set_data\<close> fails, the payload of the \<open>image.upload\<close> error
  notification is the formatted message string itself and not a mapping: it has none of
  the keys of the image payload, whereas the \<open>image.upload\<close> notification of a
  successful upload carries a mapping with \<open>id\<close>, \<open>status\<close> and \<open>deleted\<close>. A failure
  that no \<open>except\<close> clause catches emits no \<open>image.upload\<close> notification at all.
\<close>

theorem set_data_error_payload_is_message:
  "(base (ImageSetData img dat sz) = Inl e \<and> caught e \<longrightarrow>
      (\<exists>msg raised. upload_failure img e = Some (msg, raised)
        \<and> notifications ''image.upload'' (snd (ImageProxy_set_data clk base img dat sz tr))
            = notifications ''image.upload'' tr @ [Notify ERROR ''image.upload'' (PayloadText msg)]
        \<and> payload_keys (PayloadText msg) = []))
   \<and> (base (ImageSetData img dat sz) = Inl e \<and> \<not> caught e \<longrightarrow>
      notifications ''image.upload'' (snd (ImageProxy_set_data clk base img dat sz tr))
        = notifications ''image.upload'' tr)
   \<and> (base (ImageSetData img dat sz) = Inr img1 \<longrightarrow>
      (\<exists>d. notifications ''image.upload'' (snd (ImageProxy_set_data clk base img dat sz tr))
             = notifications ''image.upload'' tr @ [Notify INFO ''image.upload'' (PayloadDict d)]
           \<and> {''id'', ''status'', ''deleted''} \<subseteq> set (payload_keys (PayloadDict d))))"
proof -
  have handled: "\<exists>msg raised. upload_failure img e = Some (msg, raised)
        \<and> notifications ''image.upload'' (snd (ImageProxy_set_data clk base img dat sz tr))
            = notifications ''image.upload'' tr @ [Notify ERROR ''image.upload'' (PayloadText msg)]
        \<and> payload_keys (PayloadText msg) = []"
    if "base (ImageSetData img dat sz) = Inl e" and "caught e"
    using that
    by (cases e)
       (simp_all add: sink_defs ImageProxy_set_data_def Let_def notifications_append
          notifications_def)
  have passed: "notifications ''image.upload'' (snd (ImageProxy_set_data clk base img dat sz tr))
        = notifications ''image.upload'' tr"
    if "base (ImageSetData img dat sz) = Inl e" and "\<not> caught e"
    using that
    by (cases e)
       (simp_all add: sink_defs ImageProxy_set_data_def Let_def notifications_append
          notifications_def)
  have stored: "\<exists>d. notifications ''image.upload'' (snd (ImageProxy_set_data clk base img dat sz tr))
             = notifications ''image.upload'' tr @ [Notify INFO ''image.upload'' (PayloadDict d)]
           \<and> {''id'', ''status'', ''deleted''} \<subseteq> set (payload_keys (PayloadDict d))"
    if "base (ImageSetData img dat sz) = Inr img1"
    using that
    by (simp add: sink_defs ImageProxy_set_data_def Let_def notifications_append
          notifications_def format_image_notification_def keys_def)
  from handled passed stored show ?thesis by blast
qed

theorem set_data_error_payload_is_message_witness:
  "full_store (ImageSetData image0 [''data''] None) = Inl (StorageFull ''no space left'') \<and>
   caught (StorageFull ''no space left'') \<and>
   notifications ''image.upload''
      (snd (ImageProxy_set_data clock0 full_store image0 [''data''] None []))
     = [Notify ERROR ''image.upload'' (PayloadText ''Image storage media is full: no space left'')] \<and>
   interrupted (ImageSetData image0 [''data''] None) = Inl (BaseException ''KeyboardInterrupt'') \<and>
   \<not> caught (BaseException ''KeyboardInterrupt'') \<and>
   notifications ''image.upload''
      (snd (ImageProxy_set_data clock0 interrupted image0 [''data''] None [])) = [] \<and>
   accepting (ImageSetData image0 [''data''] None) = Inr image0 \<and>
   (\<exists>d. notifications ''image.upload''
           (snd (ImageProxy_set_data clock0 accepting image0 [''data''] None []))
         = [Notify INFO ''image.upload'' (PayloadDict d)]
       \<and> {''id'', ''status'', ''deleted''} \<subseteq> set (payload_keys (PayloadDict d)))"
  using set_data_error_payload_is_message
          [of full_store image0 "[''data'']" None "StorageFull ''no space left''" clock0 "[]" image0]
        set_data_error_payload_is_message
          [of interrupted image0 "[''data'']" None "BaseException ''KeyboardInterrupt''" clock0 "[]" image0]
        set_data_error_payload_is_message
          [of accepting image0 "[''data'']" None "StorageFull ''no space left''" clock0 "[]" image0]
  by (simp add: full_store_def interrupted_def accepting_def notifications_def Let_def)

section \<open>Properties of the quota layer\<close>

lemma stars_length: "sum_list (map length (stars n)) = n"
  by (simp add: stars_def sum_list_replicate)

lemmas set_data_defs =
  quota_ImageProxy_set_data_def check_storage_quota_def FakeImage_set_data_def weight_def
  FakeContext_def FakeImage_def unlimited_def storage_quota_def stars_length Let_def

lemma digit_val_digit: "d < 10 \<Longrightarrow> digit_val (''0123456789'' ! d) = d"
proof -
  assume "d < 10"
  then have "d \<in> {0, 1, 2, 3, 4, 5, 6, 7, 8, 9}" by auto
  then show ?thesis by (auto simp add: digit_val_def)
qed

lemma nat_of_str_snoc: "nat_of_str (s @ [c]) = 10 * nat_of_str s + digit_val c"
  by (simp add: nat_of_str_def)

text \<open>The string \<open>str_nat n\<close> is the decimal numeral of \<open>n\<close>.\<close>

lemma nat_of_str_str_nat: "nat_of_str (str_nat n) = n"
proof (induction n rule: str_nat.induct)
  case (1 n)
  show ?case
  proof (cases "n < 10")
    case True
    then show ?thesis
      by (simp add: str_nat.simps [of n] nat_of_str_def digit_val_digit)
  next
    case False
    with 1 have "nat_of_str (str_nat (n div 10)) = n div 10" by simp
    with False show ?thesis
      by (simp add: str_nat.simps [of n] nat_of_str_snoc digit_val_digit)
  qed
qed

subsection \<open>The scenarios of test_quota.py\<close>

text \<open>The model agrees with what the tests of the storage quota assert: ten bytes fit a
  quota of ten; eleven bytes without a declared size are rejected after the write, and
  the data is deleted from the backend; eleven declared bytes are rejected before
  anything is written.\<close>

lemma test_quota_allowed:
  "quota_ImageProxy_set_data FakeContext (storage_quota 10) 0
     (FakeImage\<lparr>fi_image_id := ''id''\<rparr>) (stars 10) None [] =
   (Inr (), FakeImage\<lparr>fi_image_id := ''id'', fi_size := Some 10\<rparr>, [Written ''id'' 10])"
  by (simp add: set_data_defs)

lemma test_quota_exceeded_no_size:
  "quota_ImageProxy_set_data FakeContext (storage_quota 10) 0
     (FakeImage\<lparr>fi_image_id := ''id''\<rparr>) (stars 11) None [] =
   (Inl (StorageQuotaFull 11 0 10), FakeImage\<lparr>fi_image_id := ''id'', fi_size := Some 11\<rparr>,
    [Written ''id'' 11, Deleted ''file:///not/a/path''])"
  by (simp add: set_data_defs)

lemma test_quota_exceeded_with_right_size:
  "quota_ImageProxy_set_data FakeContext (storage_quota 10) 0
     (FakeImage\<lparr>fi_image_id := ''id''\<rparr>) (stars 11) (Some 11) [] =
   (Inl (StorageQuotaFull 11 0 10), FakeImage\<lparr>fi_image_id := ''id''\<rparr>, [])"
  by (simp add: set_data_defs)

text \<open>\<open>test_add_too_many_image_tags\<close>: with a tag quota of 1 the first tag is added, the
  second is refused with \<open>Attempted: 2, Maximum: 1\<close>, and the first tag stays.\<close>

lemma test_add_too_many_image_tags:
  "QuotaImageTagsProxy_add (unlimited\<lparr>image_tag_quota := 1\<rparr>) ''foo'' FakeImage
     = (Inr (), FakeImage\<lparr>fi_tags := {|''foo''|}\<rparr>)
   \<and> QuotaImageTagsProxy_add (unlimited\<lparr>image_tag_quota := 1\<rparr>) ''bar''
       (FakeImage\<lparr>fi_tags := {|''foo''|}\<rparr>)
     = (Inl (ImageTagLimitExceeded 2 1), FakeImage\<lparr>fi_tags := {|''foo''|}\<rparr>)
   \<and> exc_message (ImageTagLimitExceeded 2 1) = ''Attempted: 2, Maximum: 1''"
  by (simp add: QuotaImageTagsProxy_add_def check_count_quota_def unlimited_def FakeImage_def
        fcard_finsert_if str_nat.simps str_int_def)

text \<open>\<open>test_new_image_member_too_many_members\<close> and its unlimited counterpart.\<close>

lemma test_new_image_member:
  "ImageMemberFactoryProxy_new_image_member (unlimited\<lparr>image_member_quota := 0\<rparr>) 0 ''fake_id''
     = Inl (ImageMemberLimitExceeded 1 0)
   \<and> ImageMemberFactoryProxy_new_image_member unlimited 0 ''fake_id'' = Inr ''fake_id''
   \<and> ImageMemberFactoryProxy_new_image_member (unlimited\<lparr>image_member_quota := 1\<rparr>) 0 ''fake_id'' = Inr ''fake_id''"
  by (simp add: ImageMemberFactoryProxy_new_image_member_def check_count_quota_def unlimited_def)

subsection \<open>A declared size that understates the stream\<close>

text \<open>
  Claim C2 as stated: with a storage quota of 10 bytes, a \<open>set_data\<close> call that declares
  \<open>size = 9\<close> while the stream yields 11 bytes passes the check on the declared size
  and the write proceeds without raising \<open>StorageQuotaFull\<close>. The call does raise
  \<open>StorageQuotaFull\<close>, as \<open>test_quota_exceeded_with_lie_size\<close> asserts.
\<close>

theorem lie_size_counterexample:
  "fst (quota_ImageProxy_set_data FakeContext (storage_quota 10) 0
          (FakeImage\<lparr>fi_image_id := ''id''\<rparr>) (stars 11) (Some 9) [])
     = Inl (StorageQuotaFull 11 0 10)"
  by (simp add: set_data_defs)

text \<open>
  Claim C2, amended: with a storage quota of 10 bytes, a \<open>set_data\<close> call that declares
  \<open>size = 9\<close> while the stream yields 11 bytes passes the quota check on the declared
  size and the write is made, and \<open>StorageQuotaFull\<close> is raised afterwards, when the
  size really consumed is checked. In general: for a caller who is not admin, whenever
  the declared size fits the quota and the streamed length does not.
\<close>

theorem lie_size_rejected_after_write:
  assumes "\<not> is_admin ctx"
    and "int declared + int others \<le> user_storage_quota cfg"
    and "user_storage_quota cfg < int (sum_list (map length dat)) + int others"
  shows "check_storage_quota ctx cfg declared others = Inr ()
    \<and> (\<exists>rest. quota_ImageProxy_set_data ctx cfg others img dat (Some declared) tr =
         (Inl (StorageQuotaFull (sum_list (map length dat)) others (user_storage_quota cfg)),
          img\<lparr>fi_size := Some (sum_list (map length dat))\<rparr>,
          tr @ Written (fi_image_id img) (sum_list (map length dat)) # rest))"
proof -
  have nn: "\<not> user_storage_quota cfg < 0" using assms(2) by linarith
  have pass: "check_storage_quota ctx cfg declared others = Inr ()"
    using assms(2) by (simp add: check_storage_quota_def)
  have late: "check_storage_quota ctx cfg (sum_list (map length dat)) others
                = Inl (StorageQuotaFull (sum_list (map length dat)) others (user_storage_quota cfg))"
    using assms(1,3) nn by (simp add: check_storage_quota_def)
  show ?thesis
    using pass late
    by (simp add: quota_ImageProxy_set_data_def FakeImage_set_data_def weight_def)
qed

theorem lie_size_rejected_after_write_witness:
  "\<not> is_admin FakeContext
   \<and> int 9 + int 0 \<le> user_storage_quota (storage_quota 10)
   \<and> user_storage_quota (storage_quota 10) < int (sum_list (map length (stars 11))) + int 0
   \<and> check_storage_quota FakeContext (storage_quota 10) 9 0 = Inr ()
   \<and> (\<exists>rest. quota_ImageProxy_set_data FakeContext (storage_quota 10) 0
                 (FakeImage\<lparr>fi_image_id := ''id''\<rparr>) (stars 11) (Some 9) [] =
         (Inl (StorageQuotaFull 11 0 10),
          FakeImage\<lparr>fi_image_id := ''id'', fi_size := Some 11\<rparr>,
          Written ''id'' 11 # rest))"
proof -
  have h1: "\<not> is_admin FakeContext" by (simp add: FakeContext_def)
  have h2: "int 9 + int 0 \<le> user_storage_quota (storage_quota 10)"
    by (simp add: storage_quota_def)
  have h3: "user_storage_quota (storage_quota 10) < int (sum_list (map length (stars 11))) + int 0"
    by (simp add: storage_quota_def stars_length)
  have n: "sum_list (map length (stars 11)) = 11" by (simp add: stars_length)
  from lie_size_rejected_after_write [OF h1 h2 h3, of "FakeImage\<lparr>fi_image_id := ''id''\<rparr>" "[]"]
       h1 h2 h3 n
  show ?thesis by (simp add: storage_quota_def)
qed

subsection \<open>A failed quota check changes nothing\<close>

text \<open>
  Claim C5: for every quota-guarded collection and every mutating call that fails the
  quota check, the collection is as it was (same length, same elements, same order) and
  so is the whole wrapped entity: the tags (add, bulk replace), the locations (append,
  insert, extend, in-place concatenation, bulk replace), and the extra properties checked
  by the repository's \<open>save\<close> and \<open>add\<close>, where a failed check leaves the wrapped
  repository uncalled.
\<close>

theorem quota_failure_leaves_state:
  "(isl (fst (QuotaImageTagsProxy_add cfg item img)) \<longrightarrow>
      snd (QuotaImageTagsProxy_add cfg item img) = img)
   \<and> (isl (fst (quota_ImageProxy_set_tags cfg tagv img)) \<longrightarrow>
      snd (quota_ImageProxy_set_tags cfg tagv img) = img)
   \<and> (isl (fst (QuotaImageLocationsProxy_append ctx cfg others loc img)) \<longrightarrow>
      snd (QuotaImageLocationsProxy_append ctx cfg others loc img) = img)
   \<and> (isl (fst (QuotaImageLocationsProxy_insert ctx cfg others i loc img)) \<longrightarrow>
      snd (QuotaImageLocationsProxy_insert ctx cfg others i loc img) = img)
   \<and> (isl (fst (QuotaImageLocationsProxy_extend ctx cfg others locs img)) \<longrightarrow>
      snd (QuotaImageLocationsProxy_extend ctx cfg others locs img) = img)
   \<and> (isl (fst (QuotaImageLocationsProxy_iadd ctx cfg others locs img)) \<longrightarrow>
      snd (QuotaImageLocationsProxy_iadd ctx cfg others locs img) = img)
   \<and> (isl (fst (quota_ImageProxy_set_locations ctx cfg others locs img)) \<longrightarrow>
      snd (quota_ImageProxy_set_locations ctx cfg others locs img) = img)
   \<and> (isl (fst (quota_ImageRepoProxy_save cfg base img tr)) \<longrightarrow>
      snd (quota_ImageRepoProxy_save cfg base img tr) = tr)
   \<and> (isl (fst (quota_ImageRepoProxy_add cfg base img tr)) \<longrightarrow>
      snd (quota_ImageRepoProxy_add cfg base img tr) = tr)"
  by (simp add: QuotaImageTagsProxy_add_def quota_ImageProxy_set_tags_def guarded_add_def
        QuotaImageLocationsProxy_append_def QuotaImageLocationsProxy_insert_def
        QuotaImageLocationsProxy_extend_def QuotaImageLocationsProxy_iadd_def
        quota_ImageProxy_set_locations_def quota_ImageRepoProxy_save_def
        quota_ImageRepoProxy_add_def delegate_def
        split: sum.splits)

theorem quota_failure_leaves_state_witness:
  "QuotaImageTagsProxy_add strict ''bar'' crowded = (Inl (ImageTagLimitExceeded 1 0), crowded)
   \<and> quota_ImageProxy_set_tags strict [''foo'', ''bar''] crowded = (Inl (ImageTagLimitExceeded 2 0), crowded)
   \<and> fcard (fi_tags crowded) = 0
   \<and> QuotaImageLocationsProxy_append FakeContext strict 0 a_path crowded
        = (Inl (StorageQuotaFull 10 20 20), crowded)
   \<and> QuotaImageLocationsProxy_insert FakeContext strict 0 0 a_path crowded
        = (Inl (StorageQuotaFull 10 20 20), crowded)
   \<and> QuotaImageLocationsProxy_extend FakeContext strict 0 [a_path] crowded
        = (Inl (StorageQuotaFull 10 20 20), crowded)
   \<and> QuotaImageLocationsProxy_iadd FakeContext strict 0 [a_path] crowded
        = (Inl (StorageQuotaFull 10 20 20), crowded)
   \<and> quota_ImageProxy_set_locations FakeContext strict 0 [a_path, a_path, a_path] crowded
        = (Inl (StorageQuotaFull 30 0 20), crowded)
   \<and> length (fi_locations crowded) = 2
   \<and> quota_ImageRepoProxy_save strict accepting crowded [] = (Inl (ImagePropertyLimitExceeded 2 1), [])
   \<and> quota_ImageRepoProxy_add strict accepting crowded [] = (Inl (ImagePropertyLimitExceeded 2 1), [])"
proof -
  have tags: "fi_tags crowded = {||}" "fi_extra_properties crowded = [(''foo'', ''bar''), (''foo2'', ''bar2'')]"
    "weight crowded = 10" "length (fi_locations crowded) = 2"
    by (simp_all add: crowded_def sized_image_def FakeImage_def weight_def)
  have cfg: "image_tag_quota strict = 0" "image_property_quota strict = 1"
    "user_storage_quota strict = 20" "\<not> is_admin FakeContext"
    by (simp_all add: strict_def FakeContext_def)
  have fails:
    "fst (QuotaImageTagsProxy_add strict ''bar'' crowded) = Inl (ImageTagLimitExceeded 1 0)"
    "fst (quota_ImageProxy_set_tags strict [''foo'', ''bar''] crowded) = Inl (ImageTagLimitExceeded 2 0)"
    "fst (QuotaImageLocationsProxy_append FakeContext strict 0 a_path crowded) = Inl (StorageQuotaFull 10 20 20)"
    "fst (QuotaImageLocationsProxy_insert FakeContext strict 0 0 a_path crowded) = Inl (StorageQuotaFull 10 20 20)"
    "fst (QuotaImageLocationsProxy_extend FakeContext strict 0 [a_path] crowded) = Inl (StorageQuotaFull 10 20 20)"
    "fst (QuotaImageLocationsProxy_iadd FakeContext strict 0 [a_path] crowded) = Inl (StorageQuotaFull 10 20 20)"
    "fst (quota_ImageProxy_set_locations FakeContext strict 0 [a_path, a_path, a_path] crowded) = Inl (StorageQuotaFull 30 0 20)"
    "fst (quota_ImageRepoProxy_save strict accepting crowded []) = Inl (ImagePropertyLimitExceeded 2 1)"
    "fst (quota_ImageRepoProxy_add strict accepting crowded []) = Inl (ImagePropertyLimitExceeded 2 1)"
    by (simp_all add: QuotaImageTagsProxy_add_def quota_ImageProxy_set_tags_def guarded_add_def
        QuotaImageLocationsProxy_append_def QuotaImageLocationsProxy_insert_def
        QuotaImageLocationsProxy_extend_def QuotaImageLocationsProxy_iadd_def
        quota_ImageProxy_set_locations_def quota_ImageRepoProxy_save_def
        quota_ImageRepoProxy_add_def
          tags cfg check_count_quota_def check_storage_quota_def fcard_finsert_if)
  from quota_failure_leaves_state
         [of strict "''bar''" crowded "[''foo'', ''bar'']" FakeContext 0 a_path 0 "[a_path]" accepting "[]"]
       quota_failure_leaves_state
         [of strict "''bar''" crowded "[''foo'', ''bar'']" FakeContext 0 a_path 0 "[a_path, a_path, a_path]" accepting "[]"]
       fails tags
  show ?thesis by (simp add: prod_eq_iff)
qed

subsection \<open>Count quotas\<close>

text \<open>
  Claim C6: for every count-quota dimension (properties, tags, members), a negative
  limit makes every attempt succeed whatever the attempted count; a limit of 0 makes
  every non-empty attempt fail; and the message of every count-quota failure contains
  \<open>Attempted: {n}, Maximum: {limit}\<close> with the attempted count and the configured limit.
\<close>

theorem count_quota_contract:
  "(maximum < 0 \<longrightarrow> check_count_quota kind n maximum = Inr ())
   \<and> (0 < n \<longrightarrow> (\<exists>e. check_count_quota kind n 0 = Inl e))
   \<and> (check_count_quota kind n maximum = Inl e \<longrightarrow>
        sublist (''Attempted: '' @ str_nat n @ '', Maximum: '' @ str_int maximum) (exc_message e))
   \<and> (image_tag_quota cfg < 0 \<longrightarrow>
        QuotaImageTagsProxy_add cfg item img = (Inr (), img\<lparr>fi_tags := finsert item (fi_tags img)\<rparr>))
   \<and> (image_tag_quota cfg = 0 \<longrightarrow> (\<exists>e. fst (QuotaImageTagsProxy_add cfg item img) = Inl e))
   \<and> (image_property_quota cfg < 0 \<longrightarrow>
        quota_ImageRepoProxy_save cfg base saved tr = (Inr (base (RepoSave saved)), tr @ [Called (RepoSave saved)]))
   \<and> (image_property_quota cfg = 0 \<and> fi_extra_properties saved \<noteq> [] \<longrightarrow>
        (\<exists>e. fst (quota_ImageRepoProxy_save cfg base saved tr) = Inl e))
   \<and> (image_member_quota cfg < 0 \<longrightarrow> ImageMemberFactoryProxy_new_image_member cfg current member_id = Inr member_id)
   \<and> (image_member_quota cfg = 0 \<longrightarrow> (\<exists>e. ImageMemberFactoryProxy_new_image_member cfg current member_id = Inl e))"
  by (cases kind)
     (auto simp add: check_count_quota_def QuotaImageTagsProxy_add_def quota_ImageRepoProxy_save_def
        ImageMemberFactoryProxy_new_image_member_def delegate_def fcard_finsert_if split: sum.splits)

theorem count_quota_contract_witness:
  "(- 1 :: int) < 0 \<and> check_count_quota Tags 5 (- 1) = Inr ()
   \<and> (0 :: nat) < 1 \<and> check_count_quota Tags 1 0 = Inl (ImageTagLimitExceeded 1 0)
   \<and> check_count_quota Properties 2 1 = Inl (ImagePropertyLimitExceeded 2 1)
   \<and> sublist ''Attempted: 2, Maximum: 1'' (exc_message (ImagePropertyLimitExceeded 2 1))
   \<and> image_tag_quota unlimited < 0
   \<and> fst (QuotaImageTagsProxy_add unlimited ''foo'' FakeImage) = Inr ()
   \<and> image_tag_quota nothing_allowed = 0
   \<and> fst (QuotaImageTagsProxy_add nothing_allowed ''bar'' FakeImage)
        = Inl (ImageTagLimitExceeded 1 0)
   \<and> image_property_quota unlimited < 0
   \<and> fst (quota_ImageRepoProxy_save unlimited accepting crowded []) = Inr (Inr crowded)
   \<and> image_property_quota nothing_allowed = 0 \<and> fi_extra_properties crowded \<noteq> []
   \<and> fst (quota_ImageRepoProxy_save nothing_allowed accepting crowded [])
        = Inl (ImagePropertyLimitExceeded 2 0)
   \<and> image_member_quota unlimited < 0
   \<and> ImageMemberFactoryProxy_new_image_member unlimited 0 ''fake_id'' = Inr ''fake_id''
   \<and> image_member_quota nothing_allowed = 0
   \<and> ImageMemberFactoryProxy_new_image_member nothing_allowed 0 ''fake_id'' = Inl (ImageMemberLimitExceeded 1 0)"
proof -
  have props: "fi_extra_properties crowded = [(''foo'', ''bar''), (''foo2'', ''bar2'')]"
    by (simp add: crowded_def)
  have tags: "fi_tags FakeImage = {||}" by (simp add: FakeImage_def)
  have cfg: "image_tag_quota unlimited = - 1" "image_property_quota unlimited = - 1"
    "image_member_quota unlimited = - 1" "image_tag_quota nothing_allowed = 0"
    "image_property_quota nothing_allowed = 0" "image_member_quota nothing_allowed = 0"
    by (simp_all add: unlimited_def nothing_allowed_def)
  from count_quota_contract
         [of "- 1" Tags 5 "ImageTagLimitExceeded 1 0" unlimited "''foo''" FakeImage
             accepting crowded "[]" 0 "''fake_id''"]
       count_quota_contract
         [of 0 Tags 1 "ImageTagLimitExceeded 1 0" nothing_allowed "''bar''" FakeImage
             accepting crowded "[]" 0 "''fake_id''"]
       count_quota_contract
         [of 1 Properties 2 "ImagePropertyLimitExceeded 2 1" unlimited "''foo''" FakeImage
             accepting crowded "[]" 0 "''fake_id''"]
  show ?thesis
    by (simp add: props tags cfg check_count_quota_def QuotaImageTagsProxy_add_def
          quota_ImageRepoProxy_save_def ImageMemberFactoryProxy_new_image_member_def delegate_def accepting_def
          fcard_finsert_if str_nat.simps str_int_def)
qed

subsection \<open>The weight of a location\<close>

text \<open>
  Claim C7 as stated: with \<open>user_storage_quota = S * N\<close> and an image of size \<open>S\<close>
  holding \<open>N\<close> locations, any append, insert, extend, in-place concatenation or
  oversize bulk replace raises \<open>StorageQuotaFull\<close>. Three calls that do not raise: an
  append by an admin caller, an extension by the empty list, and an append to an image of
  size 0.
\<close>

theorem location_weight_counterexample:
  "fst (QuotaImageLocationsProxy_append admin (storage_quota (10 * 2)) 0
          a_path (sized_image 10 2)) = Inr ()
   \<and> fst (QuotaImageLocationsProxy_extend FakeContext (storage_quota (10 * 2)) 0
          [] (sized_image 10 2)) = Inr ()
   \<and> fst (QuotaImageLocationsProxy_append FakeContext (storage_quota (0 * 2)) 0
          a_path (sized_image 0 2)) = Inr ()"
  by (simp add: QuotaImageLocationsProxy_append_def QuotaImageLocationsProxy_extend_def
        guarded_add_def check_storage_quota_def admin_def FakeContext_def storage_quota_def
        unlimited_def sized_image_def FakeImage_def weight_def)

text \<open>
  Claim C7, amended: each location of an image weighs the image's full size. For a
  caller who is not admin, with \<open>user_storage_quota = S * N\<close> and an image of size
  \<open>S > 0\<close> holding \<open>N\<close> locations, any append, any insert, any extension or in-place
  concatenation by a non-empty list, and any bulk replace whose weighted size together
  with what the owner's other images consume exceeds \<open>S * N\<close> raises
  \<open>StorageQuotaFull\<close> and leaves the image as it was, while a bulk replace that keeps
  this total within \<open>S * N\<close> succeeds.
\<close>

theorem location_weight:
  assumes "\<not> is_admin ctx" and "fi_size img = Some S" and "0 < S"
    and "length (fi_locations img) = N" and "user_storage_quota cfg = int (S * N)"
  shows "(\<exists>e. QuotaImageLocationsProxy_append ctx cfg others loc img = (Inl e, img))
   \<and> (\<exists>e. QuotaImageLocationsProxy_insert ctx cfg others i loc img = (Inl e, img))
   \<and> (locs \<noteq> [] \<longrightarrow> (\<exists>e. QuotaImageLocationsProxy_extend ctx cfg others locs img = (Inl e, img)))
   \<and> (locs \<noteq> [] \<longrightarrow> (\<exists>e. QuotaImageLocationsProxy_iadd ctx cfg others locs img = (Inl e, img)))
   \<and> (S * N < others + S * length locs \<longrightarrow>
        (\<exists>e. quota_ImageProxy_set_locations ctx cfg others locs img = (Inl e, img)))
   \<and> (others + S * length locs \<le> S * N \<longrightarrow>
        quota_ImageProxy_set_locations ctx cfg others locs img = (Inr (), img\<lparr>fi_locations := locs\<rparr>))"
proof -
  have w: "weight img = S" using assms(2) by (simp add: weight_def)
  have nn: "\<not> user_storage_quota cfg < 0"
    unfolding assms(5) by (simp only: of_nat_less_0_iff not_False_eq_True)
  have grow: "\<not> int (S * k) + int (others + S * N) \<le> int (S * N)" if "0 < k" for k
  proof -
    have "S * N < S * k + (others + S * N)" using that assms(3) by simp
    then have "int (S * N) < int (S * k + (others + S * N))" by (simp only: of_nat_less_iff)
    then show ?thesis unfolding of_nat_add by linarith
  qed
  have fit: "(int (S * k) + int others \<le> int (S * N)) = (others + S * k \<le> S * N)" for k
  proof -
    have "int (S * k) + int others = int (others + S * k)" by simp
    then show ?thesis by (simp only: of_nat_le_iff)
  qed
  have full: "\<exists>e. check_storage_quota ctx cfg (S * k) (others + S * N) = Inl e" if "0 < k" for k
    using grow [OF that] nn assms(1)
    by (simp add: check_storage_quota_def assms(5) del: of_nat_mult of_nat_add)
  have repl: "(\<exists>e. check_storage_quota ctx cfg (S * k) others = Inl e) = (S * N < others + S * k)"
             "(check_storage_quota ctx cfg (S * k) others = Inr ()) = (others + S * k \<le> S * N)" for k
    using fit [of k] nn assms(1)
    by (auto simp add: check_storage_quota_def assms(5) simp del: of_nat_mult of_nat_add)
  have app: "\<exists>e. QuotaImageLocationsProxy_append ctx cfg others loc img = (Inl e, img)"
    using full [of 1] assms(4) w
    by (auto simp add: QuotaImageLocationsProxy_append_def guarded_add_def)
  have ins: "\<exists>e. QuotaImageLocationsProxy_insert ctx cfg others i loc img = (Inl e, img)"
    using full [of 1] assms(4) w
    by (auto simp add: QuotaImageLocationsProxy_insert_def guarded_add_def)
  have ext: "\<exists>e. QuotaImageLocationsProxy_extend ctx cfg others locs img = (Inl e, img)"
    if "locs \<noteq> []"
    using that full [of "length locs"] assms(4) w
    by (auto simp add: QuotaImageLocationsProxy_extend_def guarded_add_def)
  have iadd: "\<exists>e. QuotaImageLocationsProxy_iadd ctx cfg others locs img = (Inl e, img)"
    if "locs \<noteq> []"
    using that full [of "length locs"] assms(4) w
    by (auto simp add: QuotaImageLocationsProxy_iadd_def guarded_add_def)
  have over: "\<exists>e. quota_ImageProxy_set_locations ctx cfg others locs img = (Inl e, img)"
    if "S * N < others + S * length locs"
    using that repl(1) [of "length locs"] w
    by (auto simp add: quota_ImageProxy_set_locations_def)
  have under: "quota_ImageProxy_set_locations ctx cfg others locs img = (Inr (), img\<lparr>fi_locations := locs\<rparr>)"
    if "others + S * length locs \<le> S * N"
    using that repl(2) [of "length locs"] w
    by (simp add: quota_ImageProxy_set_locations_def)
  from app ins ext iadd over under show ?thesis by blast
qed

theorem location_weight_witness:
  "\<not> is_admin FakeContext \<and> fi_size (sized_image 10 2) = Some 10 \<and> (0 :: nat) < 10
   \<and> length (fi_locations (sized_image 10 2)) = 2
   \<and> user_storage_quota (storage_quota 20) = int (10 * 2)
   \<and> (\<exists>e. QuotaImageLocationsProxy_append FakeContext (storage_quota 20) 0 a_path (sized_image 10 2)
            = (Inl e, sized_image 10 2))
   \<and> (\<exists>e. QuotaImageLocationsProxy_insert FakeContext (storage_quota 20) 0 0 a_path (sized_image 10 2)
            = (Inl e, sized_image 10 2))
   \<and> [a_path] \<noteq> []
   \<and> (\<exists>e. QuotaImageLocationsProxy_extend FakeContext (storage_quota 20) 0 [a_path] (sized_image 10 2)
            = (Inl e, sized_image 10 2))
   \<and> (\<exists>e. QuotaImageLocationsProxy_iadd FakeContext (storage_quota 20) 0 [a_path] (sized_image 10 2)
            = (Inl e, sized_image 10 2))
   \<and> (10 :: nat) * 2 < 0 + 10 * length [a_path, a_path, a_path]
   \<and> (\<exists>e. quota_ImageProxy_set_locations FakeContext (storage_quota 20) 0 [a_path, a_path, a_path]
              (sized_image 10 2) = (Inl e, sized_image 10 2))
   \<and> (0 :: nat) + 10 * length [a_path] \<le> 10 * 2
   \<and> quota_ImageProxy_set_locations FakeContext (storage_quota 20) 0 [a_path] (sized_image 10 2)
        = (Inr (), (sized_image 10 2)\<lparr>fi_locations := [a_path]\<rparr>)"
proof -
  have h1: "\<not> is_admin FakeContext" by (simp add: FakeContext_def)
  have h2: "fi_size (sized_image 10 2) = Some 10" by (simp add: sized_image_def)
  have h3: "(0 :: nat) < 10" by simp
  have h4: "length (fi_locations (sized_image 10 2)) = 2" by (simp add: sized_image_def)
  have h5: "user_storage_quota (storage_quota 20) = int (10 * 2)"
    by (simp add: storage_quota_def)
  from location_weight [OF h1 h2 h3 h4 h5, of 0 a_path 0 "[a_path]"]
       location_weight [OF h1 h2 h3 h4 h5, of 0 a_path 0 "[a_path, a_path, a_path]"]
       h1 h2 h4 h5
  show ?thesis by simp
qed

end
